theory Spec2Isabelle
  imports Main "HOL-Library.Sublist"
begin

section \<open>Bytes and the Python primitives used by the client\<close>

text \<open>
  A Python \<^verbatim>\<open>bytes\<close> value is a list of 8-bit characters. The line terminator of the
  protocol is the two bytes CR LF.
\<close>

type_synonym bytes = string

definition CRLF :: bytes where
  "CRLF = [CHR 0x0D, CHR 0x0A]"

definition BUF_SIZE :: nat where
  "BUF_SIZE = 4096"

definition DEFAULT_PORT :: nat where
  "DEFAULT_PORT = 2628"

text \<open>
  The exceptions the client can raise. \<^verbatim>\<open>ValueError\<close> is what \<^verbatim>\<open>int()\<close> raises on a
  literal it rejects (and what \<^verbatim>\<open>select\<close> raises on a closed socket); its message is not
  modelled. \<^verbatim>\<open>PyException c\<close> is the plain \<^verbatim>\<open>Exception(status_code)\<close> of the handshake.
\<close>

datatype error =
    TimeoutError string
  | ValueError
  | OSError
  | ConnectionError string
  | UnicodeDecodeError
  | PyException int
  | AttributeError string

text \<open>
  The class of a raised exception, as \<^verbatim>\<open>type(e).__name__\<close> gives it. The handshake raises
  the builtin \<^verbatim>\<open>Exception\<close>; the client defines no exception class of its own.
\<close>

fun exception_class :: "error \<Rightarrow> string" where
  "exception_class (TimeoutError m) = ''TimeoutError''"
| "exception_class ValueError = ''ValueError''"
| "exception_class OSError = ''OSError''"
| "exception_class (ConnectionError m) = ''ConnectionError''"
| "exception_class UnicodeDecodeError = ''UnicodeDecodeError''"
| "exception_class (PyException c) = ''Exception''"
| "exception_class (AttributeError m) = ''AttributeError''"

subsection \<open>\<^verbatim>\<open>int(bytes)\<close>\<close>

text \<open>
  \<^verbatim>\<open>int(b)\<close> in base 10 accepts: ASCII whitespace, an optional sign, a digit, then digits
  with single underscores between them, then ASCII whitespace, and nothing else.
\<close>

definition py_isspace :: "char \<Rightarrow> bool" where
  "py_isspace c = (c \<in> set [CHR 0x09, CHR 0x0A, CHR 0x0B, CHR 0x0C, CHR 0x0D, CHR 0x20])"

definition py_isdigit :: "char \<Rightarrow> bool" where
  "py_isdigit c = (48 \<le> (of_char c :: nat) \<and> (of_char c :: nat) \<le> 57)"

definition digit_value :: "char \<Rightarrow> int" where
  "digit_value c = int (of_char c) - 48"

fun scan_digits :: "int \<Rightarrow> bytes \<Rightarrow> (int \<times> bytes) option" where
  "scan_digits acc [] = Some (acc, [])"
| "scan_digits acc [c] =
     (if py_isdigit c then Some (10 * acc + digit_value c, [])
      else if c = CHR ''_'' then None
      else Some (acc, [c]))"
| "scan_digits acc (c # d # ds) =
     (if py_isdigit c then scan_digits (10 * acc + digit_value c) (d # ds)
      else if c = CHR ''_'' then
        (if py_isdigit d then scan_digits (10 * acc + digit_value d) ds else None)
      else Some (acc, c # d # ds))"

definition strip_sign :: "bytes \<Rightarrow> bool \<times> bytes" where
  "strip_sign s =
     (case s of
        [] \<Rightarrow> (False, [])
      | c # cs \<Rightarrow>
          if c = CHR ''+'' then (False, cs)
          else if c = CHR ''-'' then (True, cs)
          else (False, c # cs))"

definition py_int :: "bytes \<Rightarrow> int option" where
  "py_int s =
     (case strip_sign (dropWhile py_isspace s) of
        (neg, []) \<Rightarrow> None
      | (neg, d # ds) \<Rightarrow>
          if \<not> py_isdigit d then None
          else (case scan_digits 0 (d # ds) of
                  None \<Rightarrow> None
                | Some (n, rest) \<Rightarrow>
                    if dropWhile py_isspace rest = [] then Some (if neg then - n else n)
                    else None))"

subsection \<open>Formatting an integer in an f-string\<close>

function str_nat :: "nat \<Rightarrow> string" where
  "str_nat n =
     (if n < 10 then [char_of (48 + n)]
      else str_nat (n div 10) @ [char_of (48 + n mod 10)])"
  by pat_completeness auto
termination
  by (relation "measure id") auto

declare str_nat.simps [simp del]

definition str_int :: "int \<Rightarrow> string" where
  "str_int i = (if i < 0 then CHR ''-'' # str_nat (nat (- i)) else str_nat (nat i))"

section \<open>The socket\<close>

text \<open>
  The socket is a scripted transport. \<open>script\<close> holds the chunks the server will still
  deliver, each with the number of time units that pass before it becomes readable. When
  the script is used up the peer either stays silent, or (\<open>hangup\<close>) has closed its side:
  then the socket is readable for ever and every read returns \<^verbatim>\<open>b""\<close>. \<open>clock\<close> is the
  time spent waiting, and \<open>calls\<close> is the log of what the client did with the socket.
\<close>

datatype call = Connect string nat | Select nat | Recv nat | Sendall bytes | Close

record sock =
  script :: "(nat \<times> bytes) list"
  hangup :: bool
  closed :: bool
  clock :: nat
  calls :: "call list"

text \<open>\<^verbatim>\<open>select.select([sock], [], [], t)\<close>, reduced to whether the socket is in \<^verbatim>\<open>rlist\<close>.\<close>

definition select :: "sock \<Rightarrow> nat \<Rightarrow> (error + bool) \<times> sock" where
  "select s t =
     (let s' = s\<lparr>calls := calls s @ [Select t]\<rparr> in
      if closed s then (Inl ValueError, s')
      else case script s of
        [] \<Rightarrow> if hangup s then (Inr True, s') else (Inr False, s'\<lparr>clock := clock s + t\<rparr>)
      | (d, chunk) # rest \<Rightarrow>
          if d \<le> t then (Inr True, s'\<lparr>script := (0, chunk) # rest, clock := clock s + d\<rparr>)
          else (Inr False, s'\<lparr>script := (d - t, chunk) # rest, clock := clock s + t\<rparr>))"

text \<open>
  \<^verbatim>\<open>sock.recv(n)\<close>: at most \<open>n\<close> bytes of the next chunk; what does not fit stays readable.
  The client only reads after \<open>select\<close> has reported the socket readable.
\<close>

definition recv :: "sock \<Rightarrow> nat \<Rightarrow> (error + bytes) \<times> sock" where
  "recv s n =
     (let s' = s\<lparr>calls := calls s @ [Recv n]\<rparr> in
      if closed s then (Inl OSError, s')
      else case script s of
        [] \<Rightarrow> (Inr [], s')
      | (d, chunk) # rest \<Rightarrow>
          (Inr (take n chunk),
           s'\<lparr>script := (if n < length chunk then [(0, drop n chunk)] else []) @ rest,
              clock := clock s + d\<rparr>))"

definition sendall :: "sock \<Rightarrow> bytes \<Rightarrow> (error + unit) \<times> sock" where
  "sendall s b =
     (let s' = s\<lparr>calls := calls s @ [Sendall b]\<rparr> in
      if closed s then (Inl OSError, s') else (Inr (), s'))"

definition connect_sock :: "sock \<Rightarrow> string \<Rightarrow> nat \<Rightarrow> (error + unit) \<times> sock" where
  "connect_sock s host port =
     (let s' = s\<lparr>calls := calls s @ [Connect host port]\<rparr> in
      if closed s then (Inl OSError, s') else (Inr (), s'))"

definition close :: "sock \<Rightarrow> sock" where
  "close s = s\<lparr>closed := True, calls := calls s @ [Close]\<rparr>"

section \<open>The frame assembler\<close>

text \<open>\<^verbatim>\<open>DictionaryClient._get_status\<close>: \<^verbatim>\<open>int(response_bytes[:3])\<close>.\<close>

definition get_status :: "bytes \<Rightarrow> error + int" where
  "get_status response_bytes =
     (case py_int (take 3 response_bytes) of
        None \<Rightarrow> Inl ValueError
      | Some n \<Rightarrow> Inr n)"

text \<open>
  \<^verbatim>\<open>DictionaryClient._response_complete\<close>:
  \<^verbatim>\<open>(b.startswith(b"250") or b"\r\n250" in b) and b[-2:] == b"\r\n"\<close>.
\<close>

definition response_complete :: "bytes \<Rightarrow> bool" where
  "response_complete response_bytes =
     ((prefix ''250'' response_bytes \<or> sublist (CRLF @ ''250'') response_bytes)
      \<and> drop (length response_bytes - 2) response_bytes = CRLF)"

text \<open>
  The \<^verbatim>\<open>while\<close> loop of \<^verbatim>\<open>_recv_all\<close>. It may run for ever (a peer that has hung up in the
  middle of a reply keeps the socket readable), so not returning is the value \<open>None\<close>.
\<close>

definition timeout_following :: "int \<Rightarrow> string" where
  "timeout_following status_code =
     ''Client timed out following preliminary response with status '' @ str_int status_code @ ''.''"

partial_function (option) recv_loop ::
  "int \<Rightarrow> sock \<Rightarrow> bytes \<Rightarrow> ((error + bytes) \<times> sock) option" where
  "recv_loop status_code s bytes_received =
     (if response_complete bytes_received then Some (Inr bytes_received, s)
      else case select s 5 of
        (Inl e, s1) \<Rightarrow> Some (Inl e, s1)
      | (Inr ready, s1) \<Rightarrow>
          if \<not> ready then Some (Inl (TimeoutError (timeout_following status_code)), s1)
          else case recv s1 BUF_SIZE of
            (Inl e, s2) \<Rightarrow> Some (Inl e, s2)
          | (Inr chunk, s2) \<Rightarrow> recv_loop status_code s2 (bytes_received @ chunk))"

declare recv_loop.simps [code]

text \<open>
  \<^verbatim>\<open>DictionaryClient._recv_all\<close>. \<^verbatim>\<open>DictStatusCode.response_complete\<close> lives in
  \<^verbatim>\<open>status_codes.py\<close>, which is not part of the sources at hand: it is the parameter
  \<open>dsc_complete\<close>.
\<close>

definition recv_all :: "(int \<Rightarrow> bool) \<Rightarrow> sock \<Rightarrow> ((error + bytes) \<times> sock) option" where
  "recv_all dsc_complete s =
     (case select s 5 of
        (Inl e, s1) \<Rightarrow> Some (Inl e, s1)
      | (Inr ready, s1) \<Rightarrow>
          if \<not> ready
          then Some (Inl (TimeoutError ''Client timed out expecting server response.''), s1)
          else case recv s1 BUF_SIZE of
            (Inl e, s2) \<Rightarrow> Some (Inl e, s2)
          | (Inr bytes_received, s2) \<Rightarrow>
              (case get_status bytes_received of
                 Inl e \<Rightarrow> Some (Inl e, s2)
               | Inr status_code \<Rightarrow>
                   if dsc_complete status_code then Some (Inr bytes_received, s2)
                   else recv_loop status_code s2 bytes_received))"

text \<open>
  The completeness test as the specification words it: the buffer ends with the line
  terminator and the line in front of it, the last line of the buffer, opens with the
  end code \<^verbatim>\<open>250\<close>. \<open>final_line cur b\<close> is what follows the last CR LF of \<open>b\<close>.
\<close>

fun final_line :: "bytes \<Rightarrow> bytes \<Rightarrow> bytes" where
  "final_line cur [] = cur"
| "final_line cur [c] = cur @ [c]"
| "final_line cur (c # d # cs) =
     (if [c, d] = CRLF then final_line [] cs else final_line (cur @ [c]) (d # cs))"

definition spec_ends_with_terminator_line :: "bytes \<Rightarrow> bool" where
  "spec_ends_with_terminator_line b =
     (drop (length b - 2) b = CRLF
      \<and> prefix ''250'' (final_line [] (take (length b - 2) b)))"

section \<open>\<^verbatim>\<open>bytes.decode()\<close>\<close>

text \<open>
  \<^verbatim>\<open>decode()\<close> is strict UTF-8: it raises \<^verbatim>\<open>UnicodeDecodeError\<close> unless the bytes are
  well-formed UTF-8. The decoded text is kept as its UTF-8 bytes.
\<close>

definition utf8_cont :: "nat \<Rightarrow> bool" where
  "utf8_cont b = (128 \<le> b \<and> b \<le> 191)"

definition utf8_second :: "nat \<Rightarrow> nat \<Rightarrow> bool" where
  "utf8_second a b =
     (if a = 224 then 160 \<le> b \<and> b \<le> 191
      else if a = 237 then 128 \<le> b \<and> b \<le> 159
      else if a = 240 then 144 \<le> b \<and> b \<le> 191
      else if a = 244 then 128 \<le> b \<and> b \<le> 143
      else utf8_cont b)"

fun utf8_seq_len :: "nat list \<Rightarrow> nat" where
  "utf8_seq_len [] = 0"
| "utf8_seq_len (a # rest) =
     (if a < 128 then 1
      else if 194 \<le> a \<and> a \<le> 223 then
        (case rest of b # _ \<Rightarrow> if utf8_cont b then 2 else 0 | _ \<Rightarrow> 0)
      else if 224 \<le> a \<and> a \<le> 239 then
        (case rest of
           b # c # _ \<Rightarrow> if utf8_second a b \<and> utf8_cont c then 3 else 0
         | _ \<Rightarrow> 0)
      else if 240 \<le> a \<and> a \<le> 244 then
        (case rest of
           b # c # d # _ \<Rightarrow> if utf8_second a b \<and> utf8_cont c \<and> utf8_cont d then 4 else 0
         | _ \<Rightarrow> 0)
      else 0)"

function utf8_valid :: "nat list \<Rightarrow> bool" where
  "utf8_valid bs =
     (if bs = [] then True
      else if utf8_seq_len bs = 0 then False
      else utf8_valid (drop (utf8_seq_len bs) bs))"
  by pat_completeness auto
termination
  by (relation "measure length") auto

declare utf8_valid.simps [simp del]

definition decode :: "bytes \<Rightarrow> error + string" where
  "decode b = (if utf8_valid (map of_char b) then Inr b else Inl UnicodeDecodeError)"

section \<open>The collaborators\<close>

text \<open>
  The modules \<^verbatim>\<open>commands\<close>, \<^verbatim>\<open>response\<close> and \<^verbatim>\<open>status_codes\<close> are imported by the client
  but are not part of the sources at hand. What the client uses of them is a parameter: the
  command builders, the response classes (a constructor from the raw reply that may raise,
  giving an object with \<^verbatim>\<open>status_code\<close> and \<^verbatim>\<open>content\<close>), the classifier
  \<^verbatim>\<open>DictStatusCode.response_complete\<close>, and the truth value Python gives to a content.
\<close>

record 'c response =
  status_code :: int
  content :: 'c

record 'c collaborators =
  dsc_response_complete :: "int \<Rightarrow> bool"
  HandshakeResponse :: "bytes \<Rightarrow> error + 'c response"
  PreliminaryResponse :: "bytes \<Rightarrow> error + 'c response"
  ServerPropertiesResponse :: "bytes \<Rightarrow> error + 'c response"
  client_ident_command :: "string \<Rightarrow> bytes"
  disconnect_command :: bytes
  show_strategies_command :: bytes
  show_databases_command :: bytes
  truthy :: "'c \<Rightarrow> bool"

text \<open>
  Modelled from the spec: the members of \<^verbatim>\<open>DictStatusCode\<close> the client compares with
  (\<^verbatim>\<open>status_codes.py\<close> is missing). The specification gives 220 for "connection accepted",
  250 for "ok" and 221 for "closing connection".
\<close>

definition CONNECTION_ACCEPTED :: int where
  "CONNECTION_ACCEPTED = 220"

definition OK :: int where
  "OK = 250"

definition CLOSING_CONNECTION :: int where
  "CLOSING_CONNECTION = 221"

section \<open>The session\<close>

text \<open>
  A \<^verbatim>\<open>DictionaryClient\<close> object. \<open>attrs\<close> holds the instance attributes that are written
  by name with \<^verbatim>\<open>setattr\<close> (the private names of the descriptors); \<open>cls_name\<close> is
  \<^verbatim>\<open>obj.__class__.__name__\<close>.
\<close>

record 'c client =
  cls_name :: string
  client_name :: string
  client_id_info :: string
  sock :: sock
  server_info :: 'c
  attrs :: "string \<rightharpoonup> 'c"

text \<open>\<^verbatim>\<open>DictionaryClient._send_client_ident\<close>\<close>

definition send_client_ident ::
  "'c collaborators \<Rightarrow> string \<Rightarrow> sock \<Rightarrow> ((error + unit) \<times> sock) option" where
  "send_client_ident deps id_info s =
     (case sendall s (client_ident_command deps id_info) of
        (Inl e, s1) \<Rightarrow> Some (Inl e, s1)
      | (Inr _, s1) \<Rightarrow>
          (case recv_all (dsc_response_complete deps) s1 of
             None \<Rightarrow> None
           | Some (Inl e, s2) \<Rightarrow> Some (Inl e, s2)
           | Some (Inr raw, s2) \<Rightarrow>
               (case PreliminaryResponse deps raw of
                  Inl e \<Rightarrow> Some (Inl e, s2)
                | Inr response \<Rightarrow>
                    if status_code response \<noteq> OK
                    then Some (Inl (PyException (status_code response)), s2)
                    else Some (Inr (), s2))))"

text \<open>\<^verbatim>\<open>DictionaryClient._connect\<close>\<close>

definition connect ::
  "'c collaborators \<Rightarrow> string \<Rightarrow> sock \<Rightarrow> string \<Rightarrow> nat \<Rightarrow> ((error + 'c) \<times> sock) option" where
  "connect deps id_info s host port =
     (case connect_sock s host port of
        (Inl e, s1) \<Rightarrow> Some (Inl e, s1)
      | (Inr _, s1) \<Rightarrow>
          (case recv_all (dsc_response_complete deps) s1 of
             None \<Rightarrow> None
           | Some (Inl e, s2) \<Rightarrow> Some (Inl e, s2)
           | Some (Inr raw, s2) \<Rightarrow>
               (case HandshakeResponse deps raw of
                  Inl e \<Rightarrow> Some (Inl e, s2)
                | Inr response \<Rightarrow>
                    if status_code response \<noteq> CONNECTION_ACCEPTED
                    then Some (Inl (PyException (status_code response)), s2)
                    else (case send_client_ident deps id_info s2 of
                            None \<Rightarrow> None
                          | Some (Inl e, s3) \<Rightarrow> Some (Inl e, s3)
                          | Some (Inr _, s3) \<Rightarrow> Some (Inr (content response), s3)))))"

text \<open>
  \<^verbatim>\<open>DictionaryClient.__init__\<close>. The user name, the host name and the time stamp come from
  the environment; \<open>s\<close> is the socket \<^verbatim>\<open>sock_class\<close> has just created. When the constructor
  raises there is no object, only the socket it leaves behind.
\<close>

definition init ::
  "'c collaborators \<Rightarrow> string \<Rightarrow> string \<Rightarrow> string \<Rightarrow> sock \<Rightarrow> string \<Rightarrow> nat
     \<Rightarrow> ((error + 'c client) \<times> sock) option" where
  "init deps user hostname now s host port =
     (let name = user @ ''@'' @ hostname;
          id_info = name @ '' '' @ now
      in case connect deps id_info s host port of
           None \<Rightarrow> None
         | Some (Inl e, s1) \<Rightarrow> Some (Inl e, s1)
         | Some (Inr info, s1) \<Rightarrow>
             Some (Inr \<lparr>cls_name = ''DictionaryClient'', client_name = name,
                        client_id_info = id_info, sock = s1, server_info = info,
                        attrs = Map.empty\<rparr>, s1))"

text \<open>\<^verbatim>\<open>DictionaryClient.disconnect\<close>\<close>

definition unexpected_quit_reply :: "string \<Rightarrow> string" where
  "unexpected_quit_reply text =
     ''Client got unexpected response to QUIT command: '' @ [CHR 0x22] @ text @ [CHR 0x22]"

definition disconnect ::
  "'c collaborators \<Rightarrow> 'c client \<Rightarrow> ((error + unit) \<times> 'c client) option" where
  "disconnect deps obj =
     (case sendall (sock obj) (disconnect_command deps) of
        (Inl e, s1) \<Rightarrow> Some (Inl e, obj\<lparr>sock := s1\<rparr>)
      | (Inr _, s1) \<Rightarrow>
          (case recv_all (dsc_response_complete deps) s1 of
             None \<Rightarrow> None
           | Some (Inl e, s2) \<Rightarrow> Some (Inl e, obj\<lparr>sock := s2\<rparr>)
           | Some (Inr bytes_recieved, s2) \<Rightarrow>
               (case get_status bytes_recieved of
                  Inl e \<Rightarrow> Some (Inl e, obj\<lparr>sock := s2\<rparr>)
                | Inr c \<Rightarrow>
                    if c \<noteq> CLOSING_CONNECTION then
                      (case decode bytes_recieved of
                         Inl e \<Rightarrow> Some (Inl e, obj\<lparr>sock := s2\<rparr>)
                       | Inr text \<Rightarrow>
                           Some (Inl (ConnectionError (unexpected_quit_reply text)),
                                 obj\<lparr>sock := s2\<rparr>))
                    else Some (Inr (), obj\<lparr>sock := close s2\<rparr>))))"

section \<open>The descriptors\<close>

text \<open>\<^verbatim>\<open>ReadOnlyDescriptor\<close>: \<^verbatim>\<open>__set_name__\<close>, \<^verbatim>\<open>raise_read_only\<close>, \<^verbatim>\<open>__set__\<close>, \<^verbatim>\<open>__delete__\<close>.\<close>

record descriptor =
  public_name :: string
  private_name :: string

definition set_name :: "string \<Rightarrow> descriptor" where
  "set_name name = \<lparr>public_name = name, private_name = ''_'' @ name\<rparr>"

definition raise_read_only :: "descriptor \<Rightarrow> 'c client \<Rightarrow> error" where
  "raise_read_only d obj =
     AttributeError (cls_name obj @ ''.'' @ public_name d @ '' is a read-only attribute'')"

definition descriptor_set :: "descriptor \<Rightarrow> 'c client \<Rightarrow> 'c \<Rightarrow> error + 'c client" where
  "descriptor_set d obj v = Inl (raise_read_only d obj)"

definition descriptor_delete :: "descriptor \<Rightarrow> 'c client \<Rightarrow> error + 'c client" where
  "descriptor_delete d obj = Inl (raise_read_only d obj)"

text \<open>
  The class body \<^verbatim>\<open>strategies = Strategies()\<close>, \<^verbatim>\<open>databases = Databases()\<close>: Python calls
  \<^verbatim>\<open>__set_name__\<close> with the attribute's name when the class is created.
\<close>

definition strategies :: descriptor where
  "strategies = set_name ''strategies''"

definition databases :: descriptor where
  "databases = set_name ''databases''"

definition class_descriptor :: "string \<Rightarrow> descriptor option" where
  "class_descriptor name =
     (if name = ''strategies'' then Some strategies
      else if name = ''databases'' then Some databases
      else None)"

text \<open>
  \<^verbatim>\<open>obj.name = v\<close> and \<^verbatim>\<open>del obj.name\<close>: a descriptor of the class with \<^verbatim>\<open>__set__\<close> or
  \<^verbatim>\<open>__delete__\<close> takes the operation; any other name goes to the instance.
\<close>

definition py_setattr :: "'c client \<Rightarrow> string \<Rightarrow> 'c \<Rightarrow> error + 'c client" where
  "py_setattr obj name v =
     (case class_descriptor name of
        Some d \<Rightarrow> descriptor_set d obj v
      | None \<Rightarrow> Inr (obj\<lparr>attrs := (attrs obj)(name \<mapsto> v)\<rparr>))"

definition py_delattr :: "'c client \<Rightarrow> string \<Rightarrow> error + 'c client" where
  "py_delattr obj name =
     (case class_descriptor name of
        Some d \<Rightarrow> descriptor_delete d obj
      | None \<Rightarrow>
          (case attrs obj name of
             None \<Rightarrow> Inl (AttributeError name)
           | Some _ \<Rightarrow> Inr (obj\<lparr>attrs := (attrs obj)(name := None)\<rparr>)))"

text \<open>
  \<^verbatim>\<open>getattr(obj, name)\<close> on an instance attribute, and the test
  \<^verbatim>\<open>not getattr(obj, self.private_name, None)\<close> negated: the attribute is there and its
  value is true in Python's sense.
\<close>

definition py_getattr :: "'c client \<Rightarrow> string \<Rightarrow> error + 'c" where
  "py_getattr obj name =
     (case attrs obj name of None \<Rightarrow> Inl (AttributeError name) | Some v \<Rightarrow> Inr v)"

definition cached :: "'c collaborators \<Rightarrow> descriptor \<Rightarrow> 'c client \<Rightarrow> bool" where
  "cached deps d obj =
     (case attrs obj (private_name d) of None \<Rightarrow> False | Some v \<Rightarrow> truthy deps v)"

text \<open>\<^verbatim>\<open>Strategies.__get__\<close>; \<open>self\<close> is the descriptor and \<open>obj\<close> the client.\<close>

definition Strategies_get ::
  "'c collaborators \<Rightarrow> descriptor \<Rightarrow> 'c client \<Rightarrow> ((error + 'c) \<times> 'c client) option" where
  "Strategies_get deps self obj =
     (if \<not> cached deps self obj then
        (case sendall (sock obj) (show_strategies_command deps) of
           (Inl e, s1) \<Rightarrow> Some (Inl e, obj\<lparr>sock := s1\<rparr>)
         | (Inr _, s1) \<Rightarrow>
             (case recv_all (dsc_response_complete deps) s1 of
                None \<Rightarrow> None
              | Some (Inl e, s2) \<Rightarrow> Some (Inl e, obj\<lparr>sock := s2\<rparr>)
              | Some (Inr raw, s2) \<Rightarrow>
                  (case ServerPropertiesResponse deps raw of
                     Inl e \<Rightarrow> Some (Inl e, obj\<lparr>sock := s2\<rparr>)
                   | Inr response \<Rightarrow>
                       (let obj' = obj\<lparr>sock := s2,
                                       attrs := (attrs obj)(private_name self \<mapsto> content response)\<rparr>
                        in Some (py_getattr obj' (private_name self), obj')))))
      else Some (py_getattr obj (private_name self), obj))"

text \<open>\<^verbatim>\<open>Databases.__get__\<close>\<close>

definition Databases_get ::
  "'c collaborators \<Rightarrow> descriptor \<Rightarrow> 'c client \<Rightarrow> ((error + 'c) \<times> 'c client) option" where
  "Databases_get deps self obj =
     (if \<not> cached deps self obj then
        (case sendall (sock obj) (show_databases_command deps) of
           (Inl e, s1) \<Rightarrow> Some (Inl e, obj\<lparr>sock := s1\<rparr>)
         | (Inr _, s1) \<Rightarrow>
             (case recv_all (dsc_response_complete deps) s1 of
                None \<Rightarrow> None
              | Some (Inl e, s2) \<Rightarrow> Some (Inl e, obj\<lparr>sock := s2\<rparr>)
              | Some (Inr raw, s2) \<Rightarrow>
                  (case ServerPropertiesResponse deps raw of
                     Inl e \<Rightarrow> Some (Inl e, obj\<lparr>sock := s2\<rparr>)
                   | Inr response \<Rightarrow>
                       (let obj' = obj\<lparr>sock := s2,
                                       attrs := (attrs obj)(private_name self \<mapsto> content response)\<rparr>
                        in Some (py_getattr obj' (private_name self), obj')))))
      else Some (py_getattr obj (private_name self), obj))"

text \<open>
  Reading \<^verbatim>\<open>obj.strategies\<close> and \<^verbatim>\<open>obj.databases\<close>: Python calls \<^verbatim>\<open>__get__\<close> of the
  descriptor the class holds under that name.
\<close>

definition read_strategies ::
  "'c collaborators \<Rightarrow> 'c client \<Rightarrow> ((error + 'c) \<times> 'c client) option" where
  "read_strategies deps obj = Strategies_get deps strategies obj"

definition read_databases ::
  "'c collaborators \<Rightarrow> 'c client \<Rightarrow> ((error + 'c) \<times> 'c client) option" where
  "read_databases deps obj = Databases_get deps databases obj"

text \<open>
  The two \<^verbatim>\<open>__get__\<close> have the same body up to the command they send; \<open>lazy_get\<close> is that
  body with the command as an argument (see \<open>Strategies_get_lazy\<close>, \<open>Databases_get_lazy\<close>).
\<close>

definition lazy_get ::
  "'c collaborators \<Rightarrow> bytes \<Rightarrow> descriptor \<Rightarrow> 'c client \<Rightarrow> ((error + 'c) \<times> 'c client) option" where
  "lazy_get deps command d obj =
     (if \<not> cached deps d obj then
        (case sendall (sock obj) command of
           (Inl e, s1) \<Rightarrow> Some (Inl e, obj\<lparr>sock := s1\<rparr>)
         | (Inr _, s1) \<Rightarrow>
             (case recv_all (dsc_response_complete deps) s1 of
                None \<Rightarrow> None
              | Some (Inl e, s2) \<Rightarrow> Some (Inl e, obj\<lparr>sock := s2\<rparr>)
              | Some (Inr raw, s2) \<Rightarrow>
                  (case ServerPropertiesResponse deps raw of
                     Inl e \<Rightarrow> Some (Inl e, obj\<lparr>sock := s2\<rparr>)
                   | Inr response \<Rightarrow>
                       (let obj' = obj\<lparr>sock := s2,
                                       attrs := (attrs obj)(private_name d \<mapsto> content response)\<rparr>
                        in Some (py_getattr obj' (private_name d), obj')))))
      else Some (py_getattr obj (private_name d), obj))"

section \<open>Worked inputs\<close>

text \<open>
  The inputs of the worked examples. \<open>example_complete\<close> is a classifier in the sense of
  RFC 2229, where the codes 1yz announce more text and every other code stands alone;
  \<open>scripted sc\<close> is a fresh open socket that will deliver \<open>sc\<close>, and \<open>hung_up\<close> is the
  socket of a peer that has closed the connection without a word.
\<close>

definition example_complete :: "int \<Rightarrow> bool" where
  "example_complete c = (200 \<le> c)"

definition scripted :: "(nat \<times> bytes) list \<Rightarrow> sock" where
  "scripted sc = \<lparr>script = sc, hangup = False, closed = False, clock = 0, calls = []\<rparr>"


text \<open>Replies, whole and cut in chunks.\<close>

definition status_reply :: bytes where
  "status_reply = ''210 status text'' @ CRLF"

definition cut_status_head :: bytes where
  "cut_status_head = ''210 status te''"

definition cut_status_tail :: bytes where
  "cut_status_tail = ''xt'' @ CRLF"

definition split_greeting_head :: bytes where
  "split_greeting_head = ''22''"

definition split_greeting_tail :: bytes where
  "split_greeting_tail = ''0 dict.example.org ready'' @ CRLF"

definition slow_head :: bytes where
  "slow_head = ''150 1 definitions retrieved'' @ CRLF"

definition slow_body :: bytes where
  "slow_body = ''151 word db'' @ CRLF @ ''text'' @ CRLF"


definition flour_body :: bytes where
  "flour_body = ''151 cake recipes'' @ CRLF @ ''250 grams of flour'' @ CRLF @ ''2 eggs'' @ CRLF"

definition flour_tail :: bytes where
  "flour_tail = ''.'' @ CRLF @ ''250 ok'' @ CRLF"

definition greeting_reply :: bytes where
  "greeting_reply = ''220 dict.example.org ready'' @ CRLF"

definition ok_reply :: bytes where
  "ok_reply = ''250 ok'' @ CRLF"

definition busy_reply :: bytes where
  "busy_reply = ''420 Server temporarily unavailable'' @ CRLF"

definition unknown_reply :: bytes where
  "unknown_reply = ''500 unknown command'' @ CRLF"

definition bye_reply :: bytes where
  "bye_reply = ''221 bye'' @ CRLF"

definition none_reply :: bytes where
  "none_reply = ''555 No strategies available'' @ CRLF"

definition strategies_reply :: bytes where
  "strategies_reply = ''111 2 strategies present'' @ CRLF @ ''exact Match words exactly'' @ CRLF
                        @ ''prefix Match prefixes'' @ CRLF @ ''.'' @ CRLF @ ''250 ok'' @ CRLF"

text \<open>
  Collaborators for the examples: a decoder that takes the status code from the first three
  bytes and the lines between the status line and the closing period as the content (a list
  of lines, false in Python's sense when empty), and plain command builders.
\<close>

fun lines_of :: "bytes \<Rightarrow> bytes \<Rightarrow> bytes list" where
  "lines_of cur [] = (if cur = [] then [] else [cur])"
| "lines_of cur [c] = [cur @ [c]]"
| "lines_of cur (c # d # cs) =
     (if [c, d] = CRLF then cur # lines_of [] cs else lines_of (cur @ [c]) (d # cs))"

definition example_response :: "bytes \<Rightarrow> error + (bytes list) response" where
  "example_response raw =
     (case get_status raw of
        Inl e \<Rightarrow> Inl e
      | Inr c \<Rightarrow> Inr \<lparr>status_code = c,
                       content = takeWhile (\<lambda>l. l \<noteq> ''.'') (tl (lines_of [] raw))\<rparr>)"

definition example_deps :: "(bytes list) collaborators" where
  "example_deps =
     \<lparr>dsc_response_complete = example_complete,
      HandshakeResponse = example_response,
      PreliminaryResponse = example_response,
      ServerPropertiesResponse = example_response,
      client_ident_command = (\<lambda>info. ''CLIENT '' @ info @ CRLF),
      disconnect_command = ''QUIT'' @ CRLF,
      show_strategies_command = ''SHOW STRAT'' @ CRLF,
      show_databases_command = ''SHOW DB'' @ CRLF,
      truthy = (\<lambda>c. c \<noteq> [])\<rparr>"

definition example_client :: "sock \<Rightarrow> (bytes list) client" where
  "example_client s =
     \<lparr>cls_name = ''DictionaryClient'', client_name = ''me@box'',
      client_id_info = ''me@box 2024-01-01T00:00:00'', sock = s, server_info = [],
      attrs = Map.empty\<rparr>"

definition ident_command :: bytes where
  "ident_command = ''CLIENT me@box 2024-01-01T00:00:00'' @ CRLF"

text \<open>Sockets and clients as the examples leave them.\<close>

definition after_accepted :: sock where
  "after_accepted =
     \<lparr>script = [(0, ok_reply)], hangup = False, closed = False, clock = 0,
      calls = [Connect ''dict.example.org'' DEFAULT_PORT, Select 5, Recv BUF_SIZE]\<rparr>"

definition after_refused :: sock where
  "after_refused =
     \<lparr>script = [], hangup = False, closed = False, clock = 0,
      calls = [Connect ''dict.example.org'' DEFAULT_PORT, Select 5, Recv BUF_SIZE]\<rparr>"

definition left_open :: sock where
  "left_open =
     \<lparr>script = [], hangup = False, closed = False, clock = 0,
      calls = [Sendall (''QUIT'' @ CRLF), Select 5, Recv BUF_SIZE]\<rparr>"

definition no_strategies_client :: "(bytes list) client" where
  "no_strategies_client = example_client (scripted [(0, none_reply), (0, none_reply)])"

definition asked_once :: sock where
  "asked_once =
     \<lparr>script = [(0, none_reply)], hangup = False, closed = False, clock = 0,
      calls = [Sendall (''SHOW STRAT'' @ CRLF), Select 5, Recv BUF_SIZE]\<rparr>"

definition asked_twice :: sock where
  "asked_twice =
     \<lparr>script = [], hangup = False, closed = False, clock = 0,
      calls = [Sendall (''SHOW STRAT'' @ CRLF), Select 5, Recv BUF_SIZE,
               Sendall (''SHOW STRAT'' @ CRLF), Select 5, Recv BUF_SIZE]\<rparr>"

definition two_strategies_client :: "(bytes list) client" where
  "two_strategies_client = example_client (scripted [(0, strategies_reply)])"

definition two_strategies_known :: "(bytes list) client" where
  "two_strategies_known =
     two_strategies_client
       \<lparr>sock := \<lparr>script = [], hangup = False, closed = False, clock = 0,
                 calls = [Sendall (''SHOW STRAT'' @ CRLF), Select 5, Recv BUF_SIZE]\<rparr>,
        attrs := [''_strategies'' \<mapsto> [''exact Match words exactly'', ''prefix Match prefixes'']]\<rparr>"

definition idle_client :: "(bytes list) client" where
  "idle_client = example_client (scripted [])"

definition forged_strategies :: "(bytes list) client" where
  "forged_strategies = idle_client\<lparr>attrs := [''_strategies'' \<mapsto> [''made up'']]\<rparr>"

definition forged_databases :: "(bytes list) client" where
  "forged_databases = idle_client\<lparr>attrs := [''_databases'' \<mapsto> [''made up'']]\<rparr>"


definition only_waits_and_reads :: "call list \<Rightarrow> bool" where
  "only_waits_and_reads cs = list_all (\<lambda>x. x = Select 5 \<or> x = Recv BUF_SIZE) cs"

section \<open>Properties of the socket operations\<close>

lemma length_CRLF [simp]: "length CRLF = 2"
  by (simp add: CRLF_def)


lemma select_calls: "calls (snd (select s t)) = calls s @ [Select t]"
  by (simp add: select_def Let_def split: list.splits prod.splits)

lemma select_error: "select s t = (Inl e, s1) \<Longrightarrow> e = ValueError"
  by (auto simp: select_def Let_def split: if_splits list.splits prod.splits)

lemma recv_error: "recv s n = (Inl e, s1) \<Longrightarrow> e = OSError"
  by (auto simp: recv_def Let_def split: if_splits list.splits prod.splits)

lemma select_not_ready_iff:
  "fst (select s t) = Inr False \<longleftrightarrow>
     \<not> closed s \<and> (case script s of [] \<Rightarrow> \<not> hangup s | (d, chunk) # rest \<Rightarrow> t < d)"
  by (auto simp: select_def Let_def split: if_splits list.splits prod.splits)

lemma select_calls_of: "select s t = (r, s1) \<Longrightarrow> calls s1 = calls s @ [Select t]"
  by (auto simp: select_def Let_def split: if_splits list.splits prod.splits)

lemma recv_calls_of: "recv s n = (r, s1) \<Longrightarrow> calls s1 = calls s @ [Recv n]"
  by (auto simp: recv_def Let_def split: if_splits list.splits prod.splits)

lemma sendall_calls: "sendall s b = (r, s1) \<Longrightarrow> calls s1 = calls s @ [Sendall b]"
  by (auto simp: sendall_def Let_def split: if_splits)




section \<open>Properties of the frame assembler\<close>

lemma recv_all_not_ready:
  "fst (select s 5) = Inr False \<Longrightarrow>
   recv_all dsc s =
     Some (Inl (TimeoutError ''Client timed out expecting server response.''), snd (select s 5))"
  by (cases "select s 5") (simp add: recv_all_def)

lemma recv_all_first_chunk:
  assumes "select s 5 = (Inr True, s1)" and "recv s1 BUF_SIZE = (Inr chunk, s2)"
  shows "recv_all dsc s =
           (case get_status chunk of
              Inl e \<Rightarrow> Some (Inl e, s2)
            | Inr c \<Rightarrow> if dsc c then Some (Inr chunk, s2) else recv_loop c s2 chunk)"
  using assms by (simp add: recv_all_def)

lemma recv_loop_complete:
  "response_complete b \<Longrightarrow> recv_loop c s b = Some (Inr b, s)"
  by (subst recv_loop.simps) simp


lemma recv_loop_step:
  "\<not> response_complete b \<Longrightarrow> select s 5 = (Inr True, s1) \<Longrightarrow>
   recv s1 BUF_SIZE = (Inr chunk, s2) \<Longrightarrow>
   recv_loop c s b = recv_loop c s2 (b @ chunk)"
  by (subst recv_loop.simps) simp

text \<open>
  The loop has five ways on: it is done, the wait fails, the wait times out, the read fails,
  or a chunk is appended and the loop goes round. A property that holds along all five holds
  of every result of the loop.
\<close>

lemma recv_loop_cases:
  assumes run: "recv_loop c s b = Some y"
    and finished: "\<And>c s b. response_complete b \<Longrightarrow> P c s b (Inr b, s)"
    and wait_error: "\<And>c s b s1. \<not> response_complete b \<Longrightarrow> select s 5 = (Inl ValueError, s1)
                       \<Longrightarrow> P c s b (Inl ValueError, s1)"
    and timeout: "\<And>c s b s1. \<not> response_complete b \<Longrightarrow> select s 5 = (Inr False, s1)
                       \<Longrightarrow> P c s b (Inl (TimeoutError (timeout_following c)), s1)"
    and read_error: "\<And>c s b s1 s2. \<not> response_complete b \<Longrightarrow> select s 5 = (Inr True, s1)
                       \<Longrightarrow> recv s1 BUF_SIZE = (Inl OSError, s2) \<Longrightarrow> P c s b (Inl OSError, s2)"
    and step: "\<And>c s b s1 chunk s2 y. \<not> response_complete b \<Longrightarrow> select s 5 = (Inr True, s1)
                       \<Longrightarrow> recv s1 BUF_SIZE = (Inr chunk, s2) \<Longrightarrow> P c s2 (b @ chunk) y
                       \<Longrightarrow> P c s b y"
  shows "P c s b y"
proof (rule recv_loop.raw_induct [where P = P, OF _ run], goal_cases)
  case (1 loop c s b y)
  show ?case
  proof (cases "response_complete b")
    case True
    with 1(2) finished show ?thesis by auto
  next
    case False
    obtain r s1 where sel: "select s 5 = (r, s1)" by (cases "select s 5")
    show ?thesis
    proof (cases r)
      case (Inl e)
      with 1(2) False sel select_error [of s 5 e s1] wait_error [of b s s1 c]
      show ?thesis by auto
    next
      case (Inr ready)
      show ?thesis
      proof (cases ready)
        case False
        with 1(2) \<open>\<not> response_complete b\<close> sel Inr timeout [of b s s1 c] show ?thesis by auto
      next
        case True
        obtain r2 s2 where rd: "recv s1 BUF_SIZE = (r2, s2)" by (cases "recv s1 BUF_SIZE")
        show ?thesis
        proof (cases r2)
          case (Inl e)
          with 1(2) \<open>\<not> response_complete b\<close> sel Inr True rd recv_error [of s1 BUF_SIZE e s2]
            read_error [of b s s1 s2 c]
          show ?thesis by auto
        next
          case (Inr chunk)
          with 1(2) \<open>\<not> response_complete b\<close> sel \<open>r = Inr ready\<close> True rd
          have "loop c s2 (b @ chunk) = Some y" by simp
          then have "P c s2 (b @ chunk) y" by (rule 1(1))
          with \<open>\<not> response_complete b\<close> sel \<open>r = Inr ready\<close> True rd Inr
          show ?thesis by (auto intro: step)
        qed
      qed
    qed
  qed
qed


lemma recv_loop_returns_complete:
  assumes "recv_loop c s b = Some (Inr out, s')"
  shows "response_complete out"
proof -
  have "\<forall>b'. fst (Inr out :: error + bytes, s') = Inr b' \<longrightarrow> response_complete b'"
    by (rule recv_loop_cases [OF assms,
          where P = "\<lambda>c s b y. \<forall>b'. fst y = Inr b' \<longrightarrow> response_complete b'"])
       auto
  then show ?thesis by simp
qed

lemma recv_loop_returns_crlf:
  assumes "recv_loop c s b = Some (Inr out, s')"
  shows "suffix CRLF out"
proof -
  from recv_loop_returns_complete [OF assms]
  have "drop (length out - 2) out = CRLF"
    by (simp add: response_complete_def)
  then show ?thesis
    by (metis suffix_drop)
qed

lemma recv_loop_calls:
  assumes "recv_loop c s b = Some (r, s')"
  shows "\<exists>cs. calls s' = calls s @ cs \<and> only_waits_and_reads cs"
proof -
  have "\<exists>cs. calls (snd (r, s')) = calls s @ cs \<and> only_waits_and_reads cs"
    by (rule recv_loop_cases [OF assms,
        where P = "\<lambda>c s b y. \<exists>cs. calls (snd y) = calls s @ cs \<and> only_waits_and_reads cs"])
       (auto simp: only_waits_and_reads_def dest!: select_calls_of recv_calls_of)
  then show ?thesis by simp
qed

lemma recv_all_calls:
  assumes "recv_all dsc s = Some (r, s')"
  shows "\<exists>cs. calls s' = calls s @ cs \<and> only_waits_and_reads cs"
proof -
  obtain r1 s1 where sel: "select s 5 = (r1, s1)" by (cases "select s 5")
  obtain r2 s2 where rd: "recv s1 BUF_SIZE = (r2, s2)" by (cases "recv s1 BUF_SIZE")
  have c1: "calls s1 = calls s @ [Select 5]"
    by (rule select_calls_of [OF sel])
  have c2: "calls s2 = calls s @ [Select 5, Recv BUF_SIZE]"
    using recv_calls_of [OF rd] c1 by simp
  have "s' = s1 \<or> s' = s2 \<or> (\<exists>c b. recv_loop c s2 b = Some (r, s'))"
    using assms sel rd
    by (auto simp: recv_all_def split: sum.splits if_splits)
  then show ?thesis
  proof (elim disjE exE)
    assume "s' = s1"
    with c1 show ?thesis by (simp add: only_waits_and_reads_def)
  next
    assume "s' = s2"
    with c2 show ?thesis by (simp add: only_waits_and_reads_def)
  next
    fix c b
    assume "recv_loop c s2 b = Some (r, s')"
    from recv_loop_calls [OF this] c2 show ?thesis
      by (auto simp: only_waits_and_reads_def)
  qed
qed


lemma recv_all_returns_terminal_or_complete:
  assumes "recv_all dsc s = Some (Inr out, s')"
  shows "(\<exists>c. get_status out = Inr c \<and> dsc c) \<or> response_complete out"
proof -
  obtain r1 s1 where sel: "select s 5 = (r1, s1)" by (cases "select s 5")
  obtain r2 s2 where rd: "recv s1 BUF_SIZE = (r2, s2)" by (cases "recv s1 BUF_SIZE")
  from assms sel rd
  have "(\<exists>c. get_status out = Inr c \<and> dsc c) \<or> (\<exists>c t b. recv_loop c t b = Some (Inr out, s'))"
    by (auto simp: recv_all_def split: sum.splits if_splits)
  then show ?thesis
    by (auto dest: recv_loop_returns_complete)
qed

text \<open>
  The loop need not end: when the peer has hung up in the middle of a reply the socket stays
  readable, every read adds nothing, and the assembler never returns.
\<close>

lemma recv_loop_hangup_never_returns:
  assumes "\<not> closed s" and "script s = []" and "hangup s" and "\<not> response_complete b"
  shows "recv_loop c s b = None"
proof (cases "recv_loop c s b")
  case None
  then show ?thesis .
next
  case (Some y)
  have "\<not> (\<not> closed s \<and> script s = [] \<and> hangup s \<and> \<not> response_complete b)"
    by (rule recv_loop_cases [OF Some,
          where P = "\<lambda>c s b y. \<not> (\<not> closed s \<and> script s = [] \<and> hangup s \<and> \<not> response_complete b)"])
       (auto simp: select_def recv_def Let_def split: if_splits)
  with assms show ?thesis by simp
qed

text \<open>The first read and a turn of the loop on an open socket whose next chunk is in time.\<close>

lemma recv_all_first_read:
  assumes "\<not> closed s" and "script s = (d, chunk) # rest" and "d \<le> 5"
    and "length chunk \<le> BUF_SIZE"
  shows "select s 5 = (Inr True, s\<lparr>script := (0, chunk) # rest, clock := clock s + d,
                                    calls := calls s @ [Select 5]\<rparr>)"
    and "recv (s\<lparr>script := (0, chunk) # rest, clock := clock s + d,
                  calls := calls s @ [Select 5]\<rparr>) BUF_SIZE =
           (Inr chunk, s\<lparr>script := rest, clock := clock s + d,
                           calls := calls s @ [Select 5, Recv BUF_SIZE]\<rparr>)"
  using assms by (simp_all add: select_def recv_def Let_def)

lemma recv_all_read:
  assumes "\<not> closed s" and "script s = (d, chunk) # rest" and "d \<le> 5"
    and "length chunk \<le> BUF_SIZE"
  shows "recv_all dsc s =
           (case get_status chunk of
              Inl e \<Rightarrow> Some (Inl e, s\<lparr>script := rest, clock := clock s + d,
                                        calls := calls s @ [Select 5, Recv BUF_SIZE]\<rparr>)
            | Inr c \<Rightarrow>
                if dsc c
                then Some (Inr chunk, s\<lparr>script := rest, clock := clock s + d,
                                        calls := calls s @ [Select 5, Recv BUF_SIZE]\<rparr>)
                else recv_loop c (s\<lparr>script := rest, clock := clock s + d,
                                    calls := calls s @ [Select 5, Recv BUF_SIZE]\<rparr>) chunk)"
  by (rule recv_all_first_chunk [OF recv_all_first_read [OF assms]])

lemma recv_loop_read:
  assumes "\<not> response_complete b" and "\<not> closed s" and "script s = (d, chunk) # rest"
    and "d \<le> 5" and "length chunk \<le> BUF_SIZE"
  shows "recv_loop c s b =
           recv_loop c (s\<lparr>script := rest, clock := clock s + d,
                          calls := calls s @ [Select 5, Recv BUF_SIZE]\<rparr>) (b @ chunk)"
  by (rule recv_loop_step [OF assms(1) recv_all_first_read [OF assms(2-5)]])




section \<open>The worked inputs, evaluated\<close>

lemma status_reply_facts:
  "get_status status_reply = Inr 210" "length status_reply = 17"
  by (simp_all add: status_reply_def get_status_def py_int_def strip_sign_def py_isspace_def
      py_isdigit_def digit_value_def CRLF_def)

lemma example_statuses:
  "get_status slow_head = Inr 150" "get_status cut_status_head = Inr 210"
  by (simp_all add: slow_head_def cut_status_head_def get_status_def py_int_def strip_sign_def
      py_isspace_def py_isdigit_def digit_value_def CRLF_def)

lemma example_lengths:
  "length slow_head \<le> BUF_SIZE" "length flour_body \<le> BUF_SIZE" "length flour_tail \<le> BUF_SIZE"
  "length cut_status_head \<le> BUF_SIZE" "length slow_body \<le> BUF_SIZE"
  by (simp_all add: slow_head_def flour_body_def flour_tail_def cut_status_head_def
      slow_body_def BUF_SIZE_def)

lemma slow_head_incomplete: "\<not> response_complete slow_head"
  by code_simp

lemma flour_complete: "response_complete (slow_head @ flour_body)"
  by code_simp

lemma flour_not_at_tail: "\<not> spec_ends_with_terminator_line (slow_head @ flour_body)"
  by code_simp




lemma more_example_facts:
  "\<not> suffix CRLF cut_status_head" "\<not> example_complete 150" "example_complete 210"
  "length split_greeting_head \<le> BUF_SIZE" "length split_greeting_tail \<le> BUF_SIZE"
  "get_status split_greeting_head = Inr 22" "\<not> example_complete 22"
  "\<not> response_complete split_greeting_head"
  "\<not> response_complete (split_greeting_head @ split_greeting_tail)"
  "str_int 22 = ''22''"
  by code_simp+

lemma session_example_facts:
  "get_status greeting_reply = Inr 220" "get_status ok_reply = Inr 250"
  "get_status busy_reply = Inr 420" "get_status unknown_reply = Inr 500"
  "get_status none_reply = Inr 555" "get_status strategies_reply = Inr 111"
  "length greeting_reply \<le> BUF_SIZE" "length ok_reply \<le> BUF_SIZE"
  "length busy_reply \<le> BUF_SIZE" "length unknown_reply \<le> BUF_SIZE"
  "length none_reply \<le> BUF_SIZE" "length strategies_reply \<le> BUF_SIZE"
  "example_complete 220" "example_complete 250" "example_complete 420" "example_complete 500"
  "example_complete 555" "\<not> example_complete 111"
  "response_complete strategies_reply"
  "decode unknown_reply = Inr unknown_reply"
  by code_simp+

lemma bye_reply_facts:
  "get_status bye_reply = Inr 221" "length bye_reply \<le> BUF_SIZE" "example_complete 221"
  by code_simp+

lemma example_responses:
  "example_response greeting_reply = Inr \<lparr>status_code = 220, content = []\<rparr>"
  "example_response ok_reply = Inr \<lparr>status_code = 250, content = []\<rparr>"
  "example_response busy_reply = Inr \<lparr>status_code = 420, content = []\<rparr>"
  "example_response none_reply = Inr \<lparr>status_code = 555, content = []\<rparr>"
  "example_response strategies_reply =
     Inr \<lparr>status_code = 111, content = [''exact Match words exactly'', ''prefix Match prefixes'']\<rparr>"
  by code_simp+

lemma example_deps_simps:
  "dsc_response_complete example_deps = example_complete"
  "HandshakeResponse example_deps = example_response"
  "PreliminaryResponse example_deps = example_response"
  "ServerPropertiesResponse example_deps = example_response"
  "client_ident_command example_deps info = ''CLIENT '' @ info @ CRLF"
  "disconnect_command example_deps = ''QUIT'' @ CRLF"
  "show_strategies_command example_deps = ''SHOW STRAT'' @ CRLF"
  "show_databases_command example_deps = ''SHOW DB'' @ CRLF"
  "truthy example_deps c = (c \<noteq> [])"
  by (simp_all add: example_deps_def)

section \<open>The claims about the frame assembler\<close>

text \<open>
  Claim C1. For a reply that opens with a preliminary code the assembler should read on until
  the tail of the buffer is the terminator line, and a line of the body that merely holds
  \<^verbatim>\<open>250\<close> should not end the assembly. The loop does read on while \<open>response_complete\<close>
  is false (\<open>recv_loop_step\<close>) and returns only buffers it holds complete
  (\<open>recv_loop_returns_complete\<close>), but \<open>response_complete\<close> looks for CR LF \<^verbatim>\<open>250\<close> anywhere
  in the buffer. On the reply below, whose body has the line \<^verbatim>\<open>250 grams of flour\<close>, the
  assembly ends after the second chunk: the buffer returned ends with the body line
  \<^verbatim>\<open>2 eggs\<close>, it does not end with a terminator line, and the true end of the reply is left
  unread in the socket.
\<close>

theorem body_line_250_ends_assembly:
  "recv_all example_complete (scripted [(0, slow_head), (1, flour_body), (1, flour_tail)]) =
     Some (Inr (slow_head @ flour_body),
           \<lparr>script = [(1, flour_tail)], hangup = False, closed = False, clock = 1,
            calls = [Select 5, Recv BUF_SIZE, Select 5, Recv BUF_SIZE]\<rparr>)
   \<and> \<not> spec_ends_with_terminator_line (slow_head @ flour_body)"
proof -
  let ?s0 = "scripted [(0, slow_head), (1, flour_body), (1, flour_tail)]"
  let ?s1 = "\<lparr>script = [(1, flour_body), (1, flour_tail)], hangup = False, closed = False,
              clock = 0, calls = [Select 5, Recv BUF_SIZE]\<rparr>"
  let ?s2 = "\<lparr>script = [(1, flour_tail)], hangup = False, closed = False, clock = 1,
              calls = [Select 5, Recv BUF_SIZE, Select 5, Recv BUF_SIZE]\<rparr>"
  have "recv_all example_complete ?s0 = recv_loop 150 ?s1 slow_head"
    using recv_all_read [of ?s0 0 slow_head "[(1, flour_body), (1, flour_tail)]" example_complete]
      example_lengths(1) example_statuses(1) more_example_facts(2)
    by (simp add: scripted_def)
  also have "\<dots> = recv_loop 150 ?s2 (slow_head @ flour_body)"
    using recv_loop_read [OF slow_head_incomplete, of ?s1 1 flour_body "[(1, flour_tail)]" 150]
      example_lengths(2)
    by simp
  also have "\<dots> = Some (Inr (slow_head @ flour_body), ?s2)"
    by (rule recv_loop_complete [OF flour_complete])
  finally show ?thesis
    using flour_not_at_tail by simp
qed

text \<open>
  Claim C2. Every buffer the assembler returns should end with CR LF, on the terminal path
  too. The loop checks it (\<open>recv_loop_returns_crlf\<close>); the terminal path returns the first
  chunk as it is. When the first read delivers only the beginning of a one-line reply, that
  beginning is returned as the reply and the rest stays in the socket.
\<close>

theorem terminal_reply_cut_short:
  "recv_all example_complete (scripted [(0, cut_status_head), (1, cut_status_tail)]) =
     Some (Inr cut_status_head,
           \<lparr>script = [(1, cut_status_tail)], hangup = False, closed = False, clock = 0,
            calls = [Select 5, Recv BUF_SIZE]\<rparr>)
   \<and> \<not> suffix CRLF cut_status_head"
  using recv_all_read [of "scripted [(0, cut_status_head), (1, cut_status_tail)]" 0
      cut_status_head "[(1, cut_status_tail)]" example_complete]
    example_lengths(4) example_statuses(2) more_example_facts(1,3)
  by (simp add: scripted_def)

text \<open>
  Claim C3. When the first read delivers a whole reply whose status code the classifier
  takes as complete (a terminal code), \<open>recv_all\<close> returns exactly the bytes read, and the
  socket has seen one readiness wait and one read and nothing more: no second wait, no
  second read.
\<close>

theorem terminal_reply_single_read:
  assumes "\<not> closed s" and "script s = (d, line) # rest" and "d \<le> 5"
    and "length line \<le> BUF_SIZE" and "get_status line = Inr c" and "dsc c"
  shows "recv_all dsc s =
           Some (Inr line, s\<lparr>script := rest, clock := clock s + d,
                             calls := calls s @ [Select 5, Recv BUF_SIZE]\<rparr>)"
  using recv_all_read [OF assms(1-4), of dsc] assms(5,6) by simp

theorem terminal_reply_single_read_witness:
  "recv_all example_complete (scripted [(0, status_reply)]) =
     Some (Inr status_reply,
           \<lparr>script = [], hangup = False, closed = False, clock = 0,
            calls = [Select 5, Recv BUF_SIZE]\<rparr>)
   \<and> length status_reply = 17 \<and> get_status status_reply = Inr 210"
  using terminal_reply_single_read [of "scripted [(0, status_reply)]" 0 status_reply "[]" 210
      example_complete]
  by (simp add: scripted_def status_reply_facts example_complete_def BUF_SIZE_def)




text \<open>
  Claim C5. When the socket is open and no byte becomes readable within the 5 time units of
  the first wait (the peer is silent, or its first chunk comes later than that),
  \<open>recv_all\<close> fails with \<^verbatim>\<open>TimeoutError\<close>: the result is the error and carries no buffer,
  and the socket has seen the one wait and no read.
\<close>

theorem no_data_timeout:
  assumes "\<not> closed s"
    and "case script s of [] \<Rightarrow> \<not> hangup s | (d, chunk) # rest \<Rightarrow> 5 < d"
  shows "\<exists>s'. recv_all dsc s =
                 Some (Inl (TimeoutError ''Client timed out expecting server response.''), s')
              \<and> calls s' = calls s @ [Select 5]"
proof -
  from assms have "fst (select s 5) = Inr False"
    by (simp add: select_not_ready_iff)
  from recv_all_not_ready [OF this] select_calls [of s 5] show ?thesis
    by blast
qed

theorem no_data_timeout_witness:
  "\<not> closed (scripted [(6, status_reply)])
   \<and> (case script (scripted [(6, status_reply)]) of
         [] \<Rightarrow> \<not> hangup (scripted [(6, status_reply)])
       | (d, chunk) # rest \<Rightarrow> 5 < d)
   \<and> (\<exists>s'. recv_all example_complete (scripted [(6, status_reply)]) =
                 Some (Inl (TimeoutError ''Client timed out expecting server response.''), s')
              \<and> calls s' = calls (scripted [(6, status_reply)]) @ [Select 5])"
  using no_data_timeout [of "scripted [(6, status_reply)]" example_complete]
  by (simp add: scripted_def)



section \<open>The claims about the session\<close>

text \<open>What the constructor does once a greeting has been assembled and decoded.\<close>

lemma init_greeting_refused:
  assumes "connect_sock s host port = (Inr (), s1)"
    and "recv_all (dsc_response_complete deps) s1 = Some (Inr raw, s2)"
    and "HandshakeResponse deps raw = Inr greeting"
    and "status_code greeting \<noteq> 220"
  shows "init deps user hostname now s host port =
           Some (Inl (PyException (status_code greeting)), s2)"
  using assms
  by (simp add: init_def connect_def Let_def CONNECTION_ACCEPTED_def)

lemma init_ack_refused:
  assumes "connect_sock s host port = (Inr (), s1)"
    and "recv_all (dsc_response_complete deps) s1 = Some (Inr raw, s2)"
    and "HandshakeResponse deps raw = Inr greeting"
    and "status_code greeting = 220"
    and "sendall s2 (client_ident_command deps (user @ ''@'' @ hostname @ '' '' @ now))
           = (Inr (), s3)"
    and "recv_all (dsc_response_complete deps) s3 = Some (Inr raw', s4)"
    and "PreliminaryResponse deps raw' = Inr ack"
    and "status_code ack \<noteq> 250"
  shows "init deps user hostname now s host port =
           Some (Inl (PyException (status_code ack)), s4)"
  using assms
  by (simp add: init_def connect_def send_client_ident_def Let_def CONNECTION_ACCEPTED_def OK_def)

lemma init_ready_iff:
  "(\<exists>obj s'. init deps user hostname now s host port = Some (Inr obj, s')) \<longleftrightarrow>
     (\<exists>s1 raw s2 greeting s3 raw' s4 ack.
        connect_sock s host port = (Inr (), s1)
      \<and> recv_all (dsc_response_complete deps) s1 = Some (Inr raw, s2)
      \<and> HandshakeResponse deps raw = Inr greeting
      \<and> status_code greeting = 220
      \<and> sendall s2 (client_ident_command deps (user @ ''@'' @ hostname @ '' '' @ now))
           = (Inr (), s3)
      \<and> recv_all (dsc_response_complete deps) s3 = Some (Inr raw', s4)
      \<and> PreliminaryResponse deps raw' = Inr ack
      \<and> status_code ack = 250)"
  by (auto simp: init_def connect_def send_client_ident_def Let_def CONNECTION_ACCEPTED_def OK_def
      split: option.splits sum.splits prod.splits if_splits)

text \<open>
  Claim C7, as amended. The constructor returns an object exactly when the socket connects, a
  greeting is assembled and decoded with the status code 220, the identification command is
  sent, and its reply is assembled and decoded with the status code 250; on every other run
  no object is returned. A greeting with any other code makes the constructor raise the
  builtin \<^verbatim>\<open>Exception\<close> with that code, and so does an acknowledgement with a code other than
  250.
\<close>

theorem handshake:
  "((\<exists>obj s'. init deps user hostname now s host port = Some (Inr obj, s')) \<longleftrightarrow>
      (\<exists>s1 raw s2 greeting s3 raw' s4 ack.
         connect_sock s host port = (Inr (), s1)
       \<and> recv_all (dsc_response_complete deps) s1 = Some (Inr raw, s2)
       \<and> HandshakeResponse deps raw = Inr greeting
       \<and> status_code greeting = 220
       \<and> sendall s2 (client_ident_command deps (user @ ''@'' @ hostname @ '' '' @ now))
            = (Inr (), s3)
       \<and> recv_all (dsc_response_complete deps) s3 = Some (Inr raw', s4)
       \<and> PreliminaryResponse deps raw' = Inr ack
       \<and> status_code ack = 250))
   \<and> (\<forall>s1 raw s2 greeting.
         connect_sock s host port = (Inr (), s1)
       \<and> recv_all (dsc_response_complete deps) s1 = Some (Inr raw, s2)
       \<and> HandshakeResponse deps raw = Inr greeting
       \<and> status_code greeting \<noteq> 220 \<longrightarrow>
         init deps user hostname now s host port =
           Some (Inl (PyException (status_code greeting)), s2)
       \<and> exception_class (PyException (status_code greeting)) = ''Exception'')
   \<and> (\<forall>s1 raw s2 greeting s3 raw' s4 ack.
         connect_sock s host port = (Inr (), s1)
       \<and> recv_all (dsc_response_complete deps) s1 = Some (Inr raw, s2)
       \<and> HandshakeResponse deps raw = Inr greeting
       \<and> status_code greeting = 220
       \<and> sendall s2 (client_ident_command deps (user @ ''@'' @ hostname @ '' '' @ now))
            = (Inr (), s3)
       \<and> recv_all (dsc_response_complete deps) s3 = Some (Inr raw', s4)
       \<and> PreliminaryResponse deps raw' = Inr ack
       \<and> status_code ack \<noteq> 250 \<longrightarrow>
         init deps user hostname now s host port =
           Some (Inl (PyException (status_code ack)), s4)
       \<and> exception_class (PyException (status_code ack)) = ''Exception'')"
proof (intro conjI allI impI)
  show "(\<exists>obj s'. init deps user hostname now s host port = Some (Inr obj, s')) \<longleftrightarrow>
      (\<exists>s1 raw s2 greeting s3 raw' s4 ack.
         connect_sock s host port = (Inr (), s1)
       \<and> recv_all (dsc_response_complete deps) s1 = Some (Inr raw, s2)
       \<and> HandshakeResponse deps raw = Inr greeting
       \<and> status_code greeting = 220
       \<and> sendall s2 (client_ident_command deps (user @ ''@'' @ hostname @ '' '' @ now))
            = (Inr (), s3)
       \<and> recv_all (dsc_response_complete deps) s3 = Some (Inr raw', s4)
       \<and> PreliminaryResponse deps raw' = Inr ack
       \<and> status_code ack = 250)"
    by (rule init_ready_iff)
qed (auto intro: init_greeting_refused init_ack_refused)

theorem handshake_witness:
  "(\<exists>obj s'. init example_deps ''me'' ''box'' ''2024-01-01T00:00:00''
                (scripted [(0, greeting_reply), (0, ok_reply)]) ''dict.example.org'' DEFAULT_PORT
              = Some (Inr obj, s'))
   \<and> init example_deps ''me'' ''box'' ''2024-01-01T00:00:00''
         (scripted [(0, busy_reply)]) ''dict.example.org'' DEFAULT_PORT
       = Some (Inl (PyException 420), after_refused)"
proof -
  let ?host = "''dict.example.org''"
  let ?A = "scripted [(0, greeting_reply), (0, ok_reply)]"
  let ?A1 = "?A\<lparr>calls := [Connect ?host DEFAULT_PORT]\<rparr>"
  let ?A3 = "after_accepted\<lparr>calls := calls after_accepted @ [Sendall ident_command]\<rparr>"
  let ?A4 = "?A3\<lparr>script := [], calls := calls ?A3 @ [Select 5, Recv BUF_SIZE]\<rparr>"
  let ?B = "scripted [(0, busy_reply)]"
  let ?B1 = "?B\<lparr>calls := [Connect ?host DEFAULT_PORT]\<rparr>"
  have a1: "connect_sock ?A ?host DEFAULT_PORT = (Inr (), ?A1)"
    by (simp add: connect_sock_def scripted_def Let_def)
  have a2: "recv_all (dsc_response_complete example_deps) ?A1 = Some (Inr greeting_reply, after_accepted)"
    using recv_all_read [of ?A1 0 greeting_reply "[(0, ok_reply)]" example_complete]
      session_example_facts(1,7,13)
    by (simp add: scripted_def after_accepted_def example_deps_simps)
  have a3: "HandshakeResponse example_deps greeting_reply = Inr \<lparr>status_code = 220, content = []\<rparr>"
    by (simp add: example_deps_simps example_responses)
  have a4: "sendall after_accepted
              (client_ident_command example_deps (''me'' @ ''@'' @ ''box'' @ '' '' @ ''2024-01-01T00:00:00''))
            = (Inr (), ?A3)"
    by (simp add: example_deps_simps sendall_def Let_def after_accepted_def ident_command_def)
  have a5: "recv_all (dsc_response_complete example_deps) ?A3 = Some (Inr ok_reply, ?A4)"
    using recv_all_read [of ?A3 0 ok_reply "[]" example_complete] session_example_facts(2,8,14)
    by (simp add: after_accepted_def example_deps_simps)
  have a6: "PreliminaryResponse example_deps ok_reply = Inr \<lparr>status_code = 250, content = []\<rparr>"
    by (simp add: example_deps_simps example_responses)
  have ready: "\<exists>obj s'. init example_deps ''me'' ''box'' ''2024-01-01T00:00:00'' ?A ?host DEFAULT_PORT
                 = Some (Inr obj, s')"
  proof -
    have "\<exists>s1 raw s2 greeting s3 raw' s4 ack.
            connect_sock ?A ?host DEFAULT_PORT = (Inr (), s1)
          \<and> recv_all (dsc_response_complete example_deps) s1 = Some (Inr raw, s2)
          \<and> HandshakeResponse example_deps raw = Inr greeting
          \<and> status_code greeting = 220
          \<and> sendall s2 (client_ident_command example_deps
                          (''me'' @ ''@'' @ ''box'' @ '' '' @ ''2024-01-01T00:00:00''))
               = (Inr (), s3)
          \<and> recv_all (dsc_response_complete example_deps) s3 = Some (Inr raw', s4)
          \<and> PreliminaryResponse example_deps raw' = Inr ack
          \<and> status_code ack = 250"
      using a1 a2 a3 a4 a5 a6 by (metis response.select_convs(1))
    with handshake [of example_deps "''me''" "''box''" "''2024-01-01T00:00:00''" ?A ?host
        DEFAULT_PORT]
    show ?thesis by blast
  qed
  have b1: "connect_sock ?B ?host DEFAULT_PORT = (Inr (), ?B1)"
    by (simp add: connect_sock_def scripted_def Let_def)
  have b2: "recv_all (dsc_response_complete example_deps) ?B1 = Some (Inr busy_reply, after_refused)"
    using recv_all_read [of ?B1 0 busy_reply "[]" example_complete] session_example_facts(3,9,15)
    by (simp add: scripted_def after_refused_def example_deps_simps)
  have b3: "HandshakeResponse example_deps busy_reply = Inr \<lparr>status_code = 420, content = []\<rparr>"
    by (simp add: example_deps_simps example_responses)
  have refused: "init example_deps ''me'' ''box'' ''2024-01-01T00:00:00'' ?B ?host DEFAULT_PORT
                   = Some (Inl (PyException 420), after_refused)"
  proof -
    have "status_code \<lparr>status_code = 420, content = [] :: bytes list\<rparr> \<noteq> 220"
      by simp
    with handshake [of example_deps "''me''" "''box''" "''2024-01-01T00:00:00''" ?B ?host
        DEFAULT_PORT] b1 b2 b3
    show ?thesis by (metis response.select_convs(1))
  qed
  from ready refused show ?thesis by simp
qed

text \<open>
  Claim C7 as stated fails on the class of the error: on the greeting \<^verbatim>\<open>420\<close> the
  constructor raises the builtin \<^verbatim>\<open>Exception\<close> with the code 420, not an
  \<^verbatim>\<open>UnexpectedStatusError\<close>.
\<close>

theorem handshake_error_class_counterexample:
  "init example_deps ''me'' ''box'' ''2024-01-01T00:00:00''
     (scripted [(0, busy_reply)]) ''dict.example.org'' DEFAULT_PORT
     = Some (Inl (PyException 420), after_refused)
   \<and> exception_class (PyException 420) = ''Exception''
   \<and> exception_class (PyException 420) \<noteq> ''UnexpectedStatusError''"
proof -
  let ?host = "''dict.example.org''"
  let ?B = "scripted [(0, busy_reply)]"
  let ?B1 = "?B\<lparr>calls := [Connect ?host DEFAULT_PORT]\<rparr>"
  have b1: "connect_sock ?B ?host DEFAULT_PORT = (Inr (), ?B1)"
    by (simp add: connect_sock_def scripted_def Let_def)
  have b2: "recv_all (dsc_response_complete example_deps) ?B1 = Some (Inr busy_reply, after_refused)"
    using recv_all_read [of ?B1 0 busy_reply "[]" example_complete] session_example_facts(3,9,15)
    by (simp add: scripted_def after_refused_def example_deps_simps)
  have b3: "HandshakeResponse example_deps busy_reply = Inr \<lparr>status_code = 420, content = []\<rparr>"
    by (simp add: example_deps_simps example_responses)
  from init_greeting_refused [OF b1 b2 b3, of "''me''" "''box''" "''2024-01-01T00:00:00''"]
  show ?thesis by simp
qed

text \<open>What \<open>disconnect\<close> does with the reply to the quit command.\<close>

lemma disconnect_closing:
  assumes "sendall (sock obj) (disconnect_command deps) = (Inr (), s1)"
    and "recv_all (dsc_response_complete deps) s1 = Some (Inr raw, s2)"
    and "get_status raw = Inr 221"
  shows "disconnect deps obj = Some (Inr (), obj\<lparr>sock := close s2\<rparr>)"
  using assms by (simp add: disconnect_def CLOSING_CONNECTION_def)

lemma disconnect_other_status:
  assumes "sendall (sock obj) (disconnect_command deps) = (Inr (), s1)"
    and "recv_all (dsc_response_complete deps) s1 = Some (Inr raw, s2)"
    and "get_status raw = Inr c" and "c \<noteq> 221" and "decode raw = Inr text"
  shows "disconnect deps obj =
           Some (Inl (ConnectionError (unexpected_quit_reply text)), obj\<lparr>sock := s2\<rparr>)"
  using assms by (simp add: disconnect_def CLOSING_CONNECTION_def)

lemma quit_221_closes_socket:
  "disconnect example_deps (example_client (scripted [(0, bye_reply)])) =
     Some (Inr (), example_client (close left_open))"
proof -
  let ?s0 = "scripted [(0, bye_reply)]"
  let ?s1 = "?s0\<lparr>calls := [Sendall (''QUIT'' @ CRLF)]\<rparr>"
  have sent: "sendall (sock (example_client ?s0)) (disconnect_command example_deps) = (Inr (), ?s1)"
    by (simp add: example_client_def example_deps_simps sendall_def Let_def scripted_def)
  have rcv: "recv_all (dsc_response_complete example_deps) ?s1 = Some (Inr bye_reply, left_open)"
    using recv_all_read [of ?s1 0 bye_reply "[]" example_complete] bye_reply_facts
    by (simp add: scripted_def left_open_def example_deps_simps)
  from disconnect_closing [OF sent rcv bye_reply_facts(1)] show ?thesis
    by (simp add: example_client_def)
qed

text \<open>
  Claim C8. \<open>disconnect\<close> should leave the socket unusable whatever the reply to the quit
  command. With the status code 221 it closes the socket (\<open>disconnect_closing\<close>). With any
  other code it raises \<^verbatim>\<open>ConnectionError\<close> before it comes to \<^verbatim>\<open>sock.close()\<close>: on the reply
  \<^verbatim>\<open>500 unknown command\<close> the error is raised, the socket is not closed and its log holds no
  \<^verbatim>\<open>close\<close>.
\<close>

theorem failed_quit_leaves_socket_open:
  "disconnect example_deps (example_client (scripted [(0, unknown_reply)])) =
     Some (Inl (ConnectionError (unexpected_quit_reply unknown_reply)), example_client left_open)
   \<and> \<not> closed left_open \<and> Close \<notin> set (calls left_open)"
proof -
  let ?s0 = "scripted [(0, unknown_reply)]"
  let ?s1 = "?s0\<lparr>calls := [Sendall (''QUIT'' @ CRLF)]\<rparr>"
  have sent: "sendall (sock (example_client ?s0)) (disconnect_command example_deps) = (Inr (), ?s1)"
    by (simp add: example_client_def example_deps_simps sendall_def Let_def scripted_def)
  have rcv: "recv_all (dsc_response_complete example_deps) ?s1 = Some (Inr unknown_reply, left_open)"
    using recv_all_read [of ?s1 0 unknown_reply "[]" example_complete]
      session_example_facts(4,10,16)
    by (simp add: scripted_def left_open_def example_deps_simps)
  have "disconnect example_deps (example_client ?s0) =
          Some (Inl (ConnectionError (unexpected_quit_reply unknown_reply)),
                (example_client ?s0)\<lparr>sock := left_open\<rparr>)"
    by (rule disconnect_other_status [OF sent rcv session_example_facts(4) _ session_example_facts(20)])
       simp
  then show ?thesis
    by (simp add: example_client_def left_open_def)
qed

section \<open>The claims about the descriptors\<close>

lemma Strategies_get_lazy:
  "Strategies_get deps self obj = lazy_get deps (show_strategies_command deps) self obj"
  by (simp add: Strategies_get_def lazy_get_def)

lemma Databases_get_lazy:
  "Databases_get deps self obj = lazy_get deps (show_databases_command deps) self obj"
  by (simp add: Databases_get_def lazy_get_def)

lemma lazy_get_stores:
  assumes "lazy_get deps command d obj = Some (Inr v, obj')"
  shows "attrs obj' (private_name d) = Some v"
  using assms
  by (auto simp: lazy_get_def py_getattr_def Let_def
      split: if_splits option.splits sum.splits prod.splits)

lemma lazy_get_cached:
  assumes "attrs obj (private_name d) = Some v" and "truthy deps v"
  shows "lazy_get deps command d obj = Some (Inr v, obj)"
  using assms by (simp add: lazy_get_def cached_def py_getattr_def)

lemma lazy_get_not_cached_sends:
  assumes "\<not> cached deps d obj" and "lazy_get deps command d obj = Some (r, obj')"
  shows "\<exists>cs. calls (sock obj') = calls (sock obj) @ Sendall command # cs
              \<and> only_waits_and_reads cs"
proof -
  obtain r1 s1 where sent: "sendall (sock obj) command = (r1, s1)"
    by (cases "sendall (sock obj) command")
  have c1: "calls s1 = calls (sock obj) @ [Sendall command]"
    by (rule sendall_calls [OF sent])
  show ?thesis
  proof (cases r1)
    case (Inl e)
    with assms sent c1 show ?thesis
      by (auto simp: lazy_get_def only_waits_and_reads_def)
  next
    case (Inr u)
    with assms sent obtain r2 s2 where
      rcv: "recv_all (dsc_response_complete deps) s1 = Some (r2, s2)" and "sock obj' = s2"
      by (auto simp: lazy_get_def Let_def split: option.splits sum.splits prod.splits)
    with recv_all_calls [OF rcv] c1 show ?thesis by auto
  qed
qed

lemma lazy_get_requests:
  assumes "lazy_get deps command d obj = Some (r, obj')"
  shows "calls (sock obj') = calls (sock obj)
         \<or> (\<exists>cs. calls (sock obj') = calls (sock obj) @ Sendall command # cs
                  \<and> only_waits_and_reads cs)"
proof (cases "cached deps d obj")
  case True
  with assms show ?thesis by (simp add: lazy_get_def)
next
  case False
  from lazy_get_not_cached_sends [OF False assms] show ?thesis by simp
qed

lemma private_names:
  "private_name strategies = ''_strategies''" "private_name databases = ''_databases''"
  by (simp_all add: strategies_def databases_def set_name_def)

lemma property_read_lazy:
  assumes "get = read_strategies \<and> command = show_strategies_command deps
             \<and> pname = ''_strategies''
           \<or> get = read_databases \<and> command = show_databases_command deps
             \<and> pname = ''_databases''"
  shows "\<exists>d. get deps = lazy_get deps command d \<and> private_name d = pname"
  using assms
proof (elim disjE conjE)
  assume "get = read_strategies" and "command = show_strategies_command deps"
    and "pname = ''_strategies''"
  then have "get deps = lazy_get deps command strategies \<and> private_name strategies = pname"
    by (simp add: read_strategies_def Strategies_get_lazy private_names fun_eq_iff)
  then show ?thesis by blast
next
  assume "get = read_databases" and "command = show_databases_command deps"
    and "pname = ''_databases''"
  then have "get deps = lazy_get deps command databases \<and> private_name databases = pname"
    by (simp add: read_databases_def Databases_get_lazy private_names fun_eq_iff)
  then show ?thesis by blast
qed

text \<open>
  What the memoization does keep. When an access to \<^verbatim>\<open>strategies\<close> or \<^verbatim>\<open>databases\<close> returns
  a content that is true in Python's sense, every later access returns that content and
  leaves the object as it is, whatever has happened in between to the socket and to the other
  attributes: nothing is sent. The access itself has sent nothing or exactly one request.
\<close>

lemma lookup_cached_when_truthy:
  assumes "get = read_strategies \<and> command = show_strategies_command deps
             \<and> pname = ''_strategies''
           \<or> get = read_databases \<and> command = show_databases_command deps
             \<and> pname = ''_databases''"
    and "get deps obj = Some (Inr v, obj')" and "truthy deps v"
  shows "(\<forall>obj2. attrs obj2 pname = attrs obj' pname \<longrightarrow> get deps obj2 = Some (Inr v, obj2))
       \<and> (calls (sock obj') = calls (sock obj)
          \<or> (\<exists>cs. calls (sock obj') = calls (sock obj) @ Sendall command # cs
                   \<and> only_waits_and_reads cs))"
proof -
  from property_read_lazy [OF assms(1)] obtain d where get: "get deps = lazy_get deps command d"
    and pname: "private_name d = pname"
    by blast
  from assms(2) have run: "lazy_get deps command d obj = Some (Inr v, obj')"
    by (simp add: get)
  from lazy_get_stores [OF run] assms(3) pname
  have "\<forall>obj2. attrs obj2 pname = attrs obj' pname \<longrightarrow>
          lazy_get deps command d obj2 = Some (Inr v, obj2)"
    by (auto intro: lazy_get_cached)
  with lazy_get_requests [OF run] show ?thesis
    by (simp add: get)
qed

text \<open>
  What it does not keep. When the content returned is false in Python's sense, every later
  access that returns at all has sent the request again.
\<close>

lemma lookup_fetched_again_when_falsy:
  assumes "get = read_strategies \<and> command = show_strategies_command deps
             \<and> pname = ''_strategies''
           \<or> get = read_databases \<and> command = show_databases_command deps
             \<and> pname = ''_databases''"
    and "get deps obj = Some (Inr v, obj')" and "\<not> truthy deps v"
    and "attrs obj2 pname = attrs obj' pname" and "get deps obj2 = Some (r, obj3)"
  shows "\<exists>cs. calls (sock obj3) = calls (sock obj2) @ Sendall command # cs
              \<and> only_waits_and_reads cs"
proof -
  from property_read_lazy [OF assms(1)] obtain d where get: "get deps = lazy_get deps command d"
    and pname: "private_name d = pname"
    by blast
  from assms(2) have run: "lazy_get deps command d obj = Some (Inr v, obj')"
    by (simp add: get)
  from lazy_get_stores [OF run] assms(3,4) pname have "\<not> cached deps d obj2"
    by (simp add: cached_def)
  moreover from assms(5) have "lazy_get deps command d obj2 = Some (r, obj3)"
    by (simp add: get)
  ultimately show ?thesis
    by (rule lazy_get_not_cached_sends)
qed

lemma two_strategies_cached:
  "read_strategies example_deps two_strategies_client =
     Some (Inr [''exact Match words exactly'', ''prefix Match prefixes''], two_strategies_known)
   \<and> truthy example_deps [''exact Match words exactly'', ''prefix Match prefixes'']
   \<and> read_strategies example_deps two_strategies_known =
     Some (Inr [''exact Match words exactly'', ''prefix Match prefixes''], two_strategies_known)"
proof -
  let ?v = "[''exact Match words exactly'', ''prefix Match prefixes'']"
  let ?s0 = "scripted [(0, strategies_reply)]"
  let ?s1 = "?s0\<lparr>calls := [Sendall (''SHOW STRAT'' @ CRLF)]\<rparr>"
  let ?s2 = "\<lparr>script = [], hangup = False, closed = False, clock = 0,
              calls = [Sendall (''SHOW STRAT'' @ CRLF), Select 5, Recv BUF_SIZE]\<rparr>"
  have rcv: "recv_all example_complete ?s1 = Some (Inr strategies_reply, ?s2)"
    using recv_all_read [of ?s1 0 strategies_reply "[]" example_complete]
      session_example_facts(6,12,18) recv_loop_complete [OF session_example_facts(19), of 111 ?s2]
    by (simp add: scripted_def)
  have first: "read_strategies example_deps two_strategies_client = Some (Inr ?v, two_strategies_known)"
    using rcv
    by (simp add: read_strategies_def Strategies_get_lazy lazy_get_def cached_def strategies_def set_name_def
        two_strategies_client_def two_strategies_known_def example_client_def sendall_def Let_def
        scripted_def example_deps_simps example_responses py_getattr_def)
  have truth: "truthy example_deps ?v"
    by (simp add: example_deps_simps)
  from lookup_cached_when_truthy [of read_strategies "show_strategies_command example_deps"
      example_deps "''_strategies''" two_strategies_client ?v two_strategies_known,
      OF _ first truth]
  have "read_strategies example_deps two_strategies_known = Some (Inr ?v, two_strategies_known)"
    by simp
  with first truth show ?thesis by simp
qed

text \<open>
  Claim C9. The lookups should be computed at most once per session, every later access
  returning the cached value without another request. The guard of the cache is the truth
  value of the stored content, not its presence. A server without strategies answers
  \<^verbatim>\<open>555\<close>, the content is the empty list, it is stored, and the next access sends the request
  again: after two accesses the log of the socket holds two requests.
\<close>

theorem empty_content_fetched_again:
  "read_strategies example_deps no_strategies_client =
     Some (Inr [], no_strategies_client\<lparr>sock := asked_once, attrs := [''_strategies'' \<mapsto> []]\<rparr>)
   \<and> read_strategies example_deps
       (no_strategies_client\<lparr>sock := asked_once, attrs := [''_strategies'' \<mapsto> []]\<rparr>) =
     Some (Inr [], no_strategies_client\<lparr>sock := asked_twice, attrs := [''_strategies'' \<mapsto> []]\<rparr>)"
proof -
  let ?s0 = "scripted [(0, none_reply), (0, none_reply)]"
  let ?s1 = "?s0\<lparr>calls := [Sendall (''SHOW STRAT'' @ CRLF)]\<rparr>"
  let ?s3 = "asked_once\<lparr>calls := calls asked_once @ [Sendall (''SHOW STRAT'' @ CRLF)]\<rparr>"
  have r1: "recv_all example_complete ?s1 = Some (Inr none_reply, asked_once)"
    using recv_all_read [of ?s1 0 none_reply "[(0, none_reply)]" example_complete]
      session_example_facts(5,11,17)
    by (simp add: scripted_def asked_once_def)
  have r2: "recv_all example_complete ?s3 = Some (Inr none_reply, asked_twice)"
    using recv_all_read [of ?s3 0 none_reply "[]" example_complete]
      session_example_facts(5,11,17)
    by (simp add: asked_once_def asked_twice_def)
  have s3: "asked_once\<lparr>calls := [Sendall (''SHOW STRAT'' @ CRLF), Select 5, Recv BUF_SIZE,
                                   Sendall (''SHOW STRAT'' @ CRLF)]\<rparr> = ?s3"
    by (simp add: asked_once_def)
  show ?thesis
    using r1 r2
    by (simp add: read_strategies_def Strategies_get_lazy lazy_get_def cached_def strategies_def set_name_def
        no_strategies_client_def example_client_def sendall_def Let_def
        scripted_def example_deps_simps example_responses py_getattr_def s3)
       (simp add: asked_once_def)
qed

lemma init_cls_name:
  "init deps user hostname now s host port = Some (Inr obj, s') \<Longrightarrow>
   cls_name obj = ''DictionaryClient''"
  by (auto simp: init_def Let_def split: option.splits sum.splits prod.splits)

text \<open>
  Claim C10, as amended. For every object and every value, assigning to \<^verbatim>\<open>databases\<close> or
  \<^verbatim>\<open>strategies\<close> and deleting them raises \<^verbatim>\<open>AttributeError\<close> with the message that names
  the class, the attribute and "read-only"; no object comes back, so nothing is stored. The
  values behind the two attributes are the instance attributes \<^verbatim>\<open>_databases\<close> and
  \<^verbatim>\<open>_strategies\<close>, which are not protected: assigning to one of them succeeds, and a value
  assigned there that is true in Python's sense is what the public attribute returns from
  then on, with the object unchanged and nothing sent.
\<close>

theorem public_attributes_read_only:
  "py_setattr obj ''databases'' v =
     Inl (AttributeError (cls_name obj @ ''.databases is a read-only attribute''))
   \<and> py_setattr obj ''strategies'' v =
     Inl (AttributeError (cls_name obj @ ''.strategies is a read-only attribute''))
   \<and> py_delattr obj ''databases'' =
     Inl (AttributeError (cls_name obj @ ''.databases is a read-only attribute''))
   \<and> py_delattr obj ''strategies'' =
     Inl (AttributeError (cls_name obj @ ''.strategies is a read-only attribute''))
   \<and> py_setattr obj ''_databases'' v = Inr (obj\<lparr>attrs := (attrs obj)(''_databases'' \<mapsto> v)\<rparr>)
   \<and> py_setattr obj ''_strategies'' v = Inr (obj\<lparr>attrs := (attrs obj)(''_strategies'' \<mapsto> v)\<rparr>)
   \<and> (truthy deps v \<longrightarrow>
         read_databases deps (obj\<lparr>attrs := (attrs obj)(''_databases'' \<mapsto> v)\<rparr>) =
           Some (Inr v, obj\<lparr>attrs := (attrs obj)(''_databases'' \<mapsto> v)\<rparr>)
       \<and> read_strategies deps (obj\<lparr>attrs := (attrs obj)(''_strategies'' \<mapsto> v)\<rparr>) =
           Some (Inr v, obj\<lparr>attrs := (attrs obj)(''_strategies'' \<mapsto> v)\<rparr>))"
  by (simp add: py_setattr_def py_delattr_def class_descriptor_def descriptor_set_def
      descriptor_delete_def raise_read_only_def strategies_def databases_def set_name_def
      read_databases_def read_strategies_def Databases_get_def Strategies_get_def cached_def
      py_getattr_def)

theorem public_attributes_read_only_witness:
  "py_setattr idle_client ''databases'' [''made up''] =
     Inl (AttributeError ''DictionaryClient.databases is a read-only attribute'')
   \<and> py_delattr idle_client ''databases'' =
     Inl (AttributeError ''DictionaryClient.databases is a read-only attribute'')
   \<and> truthy example_deps [''made up'']
   \<and> py_setattr idle_client ''_databases'' [''made up''] = Inr forged_databases
   \<and> read_databases example_deps forged_databases = Some (Inr [''made up''], forged_databases)"
  using public_attributes_read_only [of idle_client "[''made up'']" example_deps]
  by (simp add: idle_client_def forged_databases_def example_client_def example_deps_simps)

text \<open>
  Claim C10 as stated fails on its last clause, that the attributes can only be populated
  through their lazy accessors: on a client that has asked the server nothing, assigning a
  list to \<^verbatim>\<open>_strategies\<close> succeeds, and \<^verbatim>\<open>strategies\<close> then returns that list while the log
  of the socket stays empty.
\<close>

theorem backing_attribute_counterexample:
  "py_setattr idle_client ''_strategies'' [''made up''] = Inr forged_strategies
   \<and> read_strategies example_deps forged_strategies = Some (Inr [''made up''], forged_strategies)
   \<and> calls (sock forged_strategies) = []"
  by (simp add: py_setattr_def class_descriptor_def idle_client_def forged_strategies_def
      example_client_def read_strategies_def Strategies_get_def cached_def py_getattr_def
      strategies_def set_name_def example_deps_simps scripted_def)

end
